theory Spec2Isabelle
  imports Main "HOL-Library.Word"
begin

section \<open>Python values, text and exceptions\<close>

text \<open>
  \<open>app.py\<close> is a Streamlit script: every interaction of the user runs the file from its
  first line to its last, and only \<open>st.session_state\<close> survives from one run to the next.
  The model below follows the script block by block.

  A Python \<open>str\<close> is represented by its UTF-8 encoding, a \<open>bytes\<close> object by its bytes;
  both are lists of 8-bit characters. The values that \<open>json.load\<close> and the secrets
  store hand to the script are the values of \<open>pyval\<close>; a float is kept as its IEEE-754
  bit pattern, since the script never computes with one.
\<close>

type_synonym bytes = string

datatype pyval =
    PNone
  | PBool bool
  | PInt int
  | PFloat "64 word"
  | PStr string
  | PList "pyval list"
  | PDict "(string \<times> pyval) list"

text \<open>An exception object: its class and the text that \<open>str(e)\<close> (and so \<open>f"{e}"\<close>) gives.\<close>

datatype exn = Exn (exn_class: string) (exn_str: string)

text \<open>Truth value testing, as \<open>if not x\<close> applies it.\<close>

fun truthy :: "pyval \<Rightarrow> bool" where
  "truthy PNone = False"
| "truthy (PBool b) = b"
| "truthy (PInt i) = (i \<noteq> 0)"
| "truthy (PFloat w) = (w \<noteq> 0 \<and> w \<noteq> 0x8000000000000000)"
| "truthy (PStr s) = (s \<noteq> [])"
| "truthy (PList xs) = (xs \<noteq> [])"
| "truthy (PDict kvs) = (kvs \<noteq> [])"

text \<open>\<open>sep.join(xs)\<close> on a list of strings.\<close>

fun str_join :: "string \<Rightarrow> string list \<Rightarrow> string" where
  "str_join sep [] = []"
| "str_join sep [x] = x"
| "str_join sep (x # y # ys) = x @ sep @ str_join sep (y # ys)"


section \<open>Secrets and start-up validation (lines 14 to 39)\<close>

text \<open>
  \<open>st.secrets\<close> is a mapping read from a secrets file; when there is no such file, the
  membership test \<open>key in st.secrets\<close> raises an \<open>Exception\<close>. \<open>os.environ\<close> maps names
  to strings. A date in the secrets file has no counterpart in \<open>pyval\<close>.
\<close>

datatype secrets_store = Unavailable exn | Store "string \<rightharpoonup> pyval"

definition secrets_contains :: "secrets_store \<Rightarrow> string \<Rightarrow> exn + bool" where
  "secrets_contains secrets key =
     (case secrets of
        Unavailable e \<Rightarrow> Inl e
      | Store m \<Rightarrow> Inr (key \<in> dom m))"

definition secrets_getitem :: "secrets_store \<Rightarrow> string \<Rightarrow> exn + pyval" where
  "secrets_getitem secrets key =
     (case secrets of
        Unavailable e \<Rightarrow> Inl e
      | Store m \<Rightarrow> (case m key of
                     None \<Rightarrow> Inl (Exn ''KeyError'' key)
                   | Some v \<Rightarrow> Inr v))"

definition os_getenv :: "(string \<rightharpoonup> string) \<Rightarrow> string \<Rightarrow> pyval \<Rightarrow> pyval" where
  "os_getenv environ key dflt =
     (case environ key of
        Some s \<Rightarrow> PStr s
      | None \<Rightarrow> dflt)"

text \<open>
  The body of the \<open>try\<close> in \<open>get_secret\<close>: it returns a value (\<open>Some\<close>), falls through
  (\<open>None\<close>) or raises.
\<close>

definition get_secret_try :: "secrets_store \<Rightarrow> string \<Rightarrow> exn + pyval option" where
  "get_secret_try secrets key =
     (case secrets_contains secrets key of
        Inl e \<Rightarrow> Inl e
      | Inr present \<Rightarrow>
          if present then
            (case secrets_getitem secrets key of
               Inl e \<Rightarrow> Inl e
             | Inr v \<Rightarrow> Inr (Some v))
          else Inr None)"

definition get_secret ::
  "secrets_store \<Rightarrow> (string \<rightharpoonup> string) \<Rightarrow> string \<Rightarrow> pyval \<Rightarrow> exn + pyval" where
  "get_secret secrets environ key dflt =
     (case get_secret_try secrets key of
        Inr (Some v) \<Rightarrow> Inr v
      | Inr None \<Rightarrow> Inr (os_getenv environ key dflt)
      | Inl e \<Rightarrow> Inr (os_getenv environ key dflt))"

record api_keys =
  openai_api_key :: pyval
  elevenlabs_api_key :: pyval
  openai_base_url :: pyval
  groq_api_key :: pyval

text \<open>Lines 26 to 29: the four reads, each with the default \<open>None\<close>.\<close>

definition read_keys :: "secrets_store \<Rightarrow> (string \<rightharpoonup> string) \<Rightarrow> exn + api_keys" where
  "read_keys secrets environ =
     (case get_secret secrets environ ''OPENAI_API_KEY'' PNone of
        Inl e \<Rightarrow> Inl e
      | Inr k1 \<Rightarrow>
     (case get_secret secrets environ ''ELEVENLABS_API_KEY'' PNone of
        Inl e \<Rightarrow> Inl e
      | Inr k2 \<Rightarrow>
     (case get_secret secrets environ ''OPENAI_BASE_URL'' PNone of
        Inl e \<Rightarrow> Inl e
      | Inr k3 \<Rightarrow>
     (case get_secret secrets environ ''GROQ_API_KEY'' PNone of
        Inl e \<Rightarrow> Inl e
      | Inr k4 \<Rightarrow>
          Inr \<lparr>openai_api_key = k1, elevenlabs_api_key = k2,
               openai_base_url = k3, groq_api_key = k4\<rparr>))))"

text \<open>Lines 32 to 35: the list \<open>missing\<close>.\<close>

definition missing :: "api_keys \<Rightarrow> string list" where
  "missing ks =
     (if \<not> truthy (openai_api_key ks) then [''OPENAI_API_KEY''] else []) @
     (if \<not> truthy (elevenlabs_api_key ks) then [''ELEVENLABS_API_KEY''] else []) @
     (if \<not> truthy (groq_api_key ks) then [''GROQ_API_KEY''] else [])"

text \<open>
  Lines 37 to 39: when \<open>missing\<close> is not empty the script shows the message with
  \<open>st.error\<close> and ends the run with \<open>st.stop()\<close>.
\<close>

datatype startup_result = Halted string | Ready api_keys

definition startup :: "secrets_store \<Rightarrow> (string \<rightharpoonup> string) \<Rightarrow> exn + startup_result" where
  "startup secrets environ =
     (case read_keys secrets environ of
        Inl e \<Rightarrow> Inl e
      | Inr ks \<Rightarrow>
          if missing ks \<noteq> []
          then Inr (Halted (''Missing API keys: '' @ str_join '', '' (missing ks)))
          else Inr (Ready ks))"


section \<open>Text: code points and whitespace\<close>

text \<open>
  Iterating over a \<open>str\<close> and \<open>str.strip()\<close> work on code points. In UTF-8 a code point
  is one lead byte followed by its continuation bytes (\<open>0x80\<close> to \<open>0xBF\<close>).
\<close>

definition is_cont :: "char \<Rightarrow> bool" where
  "is_cont b = (0x80 \<le> (of_char b :: nat) \<and> (of_char b :: nat) < 0xC0)"

function codepoints :: "string \<Rightarrow> string list" where
  "codepoints [] = []"
| "codepoints (b # bs) = (b # takeWhile is_cont bs) # codepoints (dropWhile is_cont bs)"
  by pat_completeness auto
termination
  by (relation "measure length") (auto simp: length_dropWhile_le less_Suc_eq_le)

text \<open>
  The code points for which \<open>str.isspace()\<close> holds, each in UTF-8: U+0009 to U+000D,
  U+001C to U+0020, U+0085, U+00A0, U+1680, U+2000 to U+200A, U+2028, U+2029, U+202F,
  U+205F and U+3000.
\<close>

definition whitespace :: "string list" where
  "whitespace =
     [[CHR 0x09], [CHR 0x0A], [CHR 0x0B], [CHR 0x0C], [CHR 0x0D],
      [CHR 0x1C], [CHR 0x1D], [CHR 0x1E], [CHR 0x1F], [CHR 0x20],
      [CHR 0xC2, CHR 0x85], [CHR 0xC2, CHR 0xA0],
      [CHR 0xE1, CHR 0x9A, CHR 0x80],
      [CHR 0xE2, CHR 0x80, CHR 0x80], [CHR 0xE2, CHR 0x80, CHR 0x81],
      [CHR 0xE2, CHR 0x80, CHR 0x82], [CHR 0xE2, CHR 0x80, CHR 0x83],
      [CHR 0xE2, CHR 0x80, CHR 0x84], [CHR 0xE2, CHR 0x80, CHR 0x85],
      [CHR 0xE2, CHR 0x80, CHR 0x86], [CHR 0xE2, CHR 0x80, CHR 0x87],
      [CHR 0xE2, CHR 0x80, CHR 0x88], [CHR 0xE2, CHR 0x80, CHR 0x89],
      [CHR 0xE2, CHR 0x80, CHR 0x8A],
      [CHR 0xE2, CHR 0x80, CHR 0xA8], [CHR 0xE2, CHR 0x80, CHR 0xA9],
      [CHR 0xE2, CHR 0x80, CHR 0xAF], [CHR 0xE2, CHR 0x81, CHR 0x9F],
      [CHR 0xE3, CHR 0x80, CHR 0x80]]"

definition isspace :: "string \<Rightarrow> bool" where
  "isspace c = (c \<in> set whitespace)"

text \<open>\<open>s.strip()\<close>: the leading and the trailing whitespace code points are removed.\<close>

definition strip :: "string \<Rightarrow> string" where
  "strip s = concat (rev (dropWhile isspace (rev (dropWhile isspace (codepoints s)))))"



section \<open>The system prompt (lines 87 to 197)\<close>











section \<open>Session state (lines 86, 198, 565 and 566)\<close>

datatype role = System | User | Assistant

record turn =
  role :: role
  content :: string

text \<open>
  \<open>st.session_state\<close> with the four keys the script uses; \<open>None\<close> is a key that is not
  set. The state of a new session has no key.
\<close>

record session_state =
  messages :: "turn list option"
  input_key :: "int option"
  current_audio :: "bytes option"
  scroll_after_message :: "bool option"


text \<open>Reading a key that is not set raises.\<close>

definition missing_key :: "string \<Rightarrow> exn" where
  \<open>missing_key key =
     Exn ''AttributeError''
       (''st.session_state has no attribute "'' @ key
          @ ''". Did you forget to initialize it? More info: ''
          @ ''https://docs.streamlit.io/develop/concepts/architecture/session-state#initialization'')\<close>




section \<open>The turn pipeline (lines 636 to 706)\<close>

text \<open>
  What a run does outside the session state: the files it leaves on disk, and the
  sequence of its calls to the three services and of what it shows (\<open>st.error\<close>,
  \<open>st.audio\<close>).
\<close>

datatype event =
    ErrorNotice string
  | TranscriptionCall bytes
  | CompletionCall "turn list"
  | SynthesisCall string
  | AudioPlayed bytes

record world =
  session :: session_state
  files :: "string \<rightharpoonup> bytes"
  trace :: "event list"

text \<open>
  The answer of the transcription service: an object with an attribute \<open>text\<close>, or
  anything else, given by what \<open>str\<close> makes of it.
\<close>

datatype transcription = TextAttr string | NoTextAttr string

text \<open>
  The outside of one run: the name \<open>NamedTemporaryFile\<close> picks, and the three services.
  A service returns or raises. The completion service returns the \<open>message.content\<close>
  of each of its choices; the synthesis service returns the chunks of its generator.
\<close>

record services =
  tmp_name :: string
  transcriptions_create :: "bytes \<Rightarrow> exn + transcription"
  completions_create :: "turn list \<Rightarrow> exn + string list"
  text_to_speech_convert :: "string \<Rightarrow> exn + bytes list"

definition emit :: "event \<Rightarrow> world \<Rightarrow> world" where
  "emit ev w = w\<lparr>trace := trace w @ [ev]\<rparr>"

definition st_error :: "string \<Rightarrow> world \<Rightarrow> world" where
  "st_error msg w = emit (ErrorNotice msg) w"

definition open_rb :: "world \<Rightarrow> string \<Rightarrow> exn + bytes" where
  "open_rb w path =
     (case files w path of
        None \<Rightarrow> Inl (Exn ''FileNotFoundError'' path)
      | Some data \<Rightarrow> Inr data)"

definition os_remove :: "string \<Rightarrow> world \<Rightarrow> exn + world" where
  "os_remove path w =
     (case files w path of
        None \<Rightarrow> Inl (Exn ''FileNotFoundError'' path)
      | Some data \<Rightarrow> Inr (w\<lparr>files := (files w)(path := None)\<rparr>))"

text \<open>
  Lines 642 to 661, the body of the first \<open>try\<close>. An exception leaves the world as it
  is at the raise.
\<close>

definition listen_try :: "services \<Rightarrow> bytes \<Rightarrow> world \<Rightarrow> world \<times> (exn + string)" where
  "listen_try sv audio w =
     (let tmp_audio_path = tmp_name sv;
          w1 = w\<lparr>files := (files w)(tmp_audio_path \<mapsto> audio)\<rparr>
      in case open_rb w1 tmp_audio_path of
           Inl e \<Rightarrow> (w1, Inl e)
         | Inr audio_file \<Rightarrow>
             let w2 = emit (TranscriptionCall audio_file) w1
             in case transcriptions_create sv audio_file of
                  Inl e \<Rightarrow> (w2, Inl e)
                | Inr transcription \<Rightarrow>
                    let user_text = (case transcription of
                                       TextAttr s \<Rightarrow> s
                                     | NoTextAttr s \<Rightarrow> s)
                    in case os_remove tmp_audio_path w2 of
                         Inl e \<Rightarrow> (w2, Inl e)
                       | Inr w3 \<Rightarrow> (w3, Inr user_text))"

text \<open>Lines 640 to 665: \<open>user_text\<close> is the text, or \<open>None\<close> after an exception.\<close>

definition listen :: "services \<Rightarrow> bytes \<Rightarrow> world \<Rightarrow> world \<times> string option" where
  "listen sv audio w =
     (case listen_try sv audio w of
        (w1, Inr user_text) \<Rightarrow> (w1, Some user_text)
      | (w1, Inl e) \<Rightarrow> (st_error (''Audio processing failed: '' @ exn_str e) w1, None))"

text \<open>How a block of the script ends.\<close>

datatype control = Continue | Rerun | Stop | Crash exn

definition set_messages :: "turn list \<Rightarrow> world \<Rightarrow> world" where
  "set_messages log w = w\<lparr>session := (session w)\<lparr>messages := Some log\<rparr>\<rparr>"

text \<open>
  Lines 675 to 703, the body of the second \<open>try\<close>, entered with the log that already
  holds the user turn. \<open>st.rerun()\<close> ends the run by an exception that is not an
  \<open>Exception\<close>, so the handler of line 705 lets it pass: \<open>Inr ()\<close> is that exit.
\<close>

definition respond_try :: "services \<Rightarrow> turn list \<Rightarrow> world \<Rightarrow> world \<times> (exn + unit)" where
  "respond_try sv log w =
     (let w1 = emit (CompletionCall log) w
      in case completions_create sv log of
           Inl e \<Rightarrow> (w1, Inl e)
         | Inr choices \<Rightarrow>
             (case choices of
                [] \<Rightarrow> (w1, Inl (Exn ''IndexError'' ''list index out of range''))
              | bot_text # others \<Rightarrow>
                  let w2 = set_messages (log @ [\<lparr>role = Assistant, content = bot_text\<rparr>]) w1;
                      w3 = w2\<lparr>session := (session w2)\<lparr>scroll_after_message := Some True\<rparr>\<rparr>;
                      w4 = emit (SynthesisCall bot_text) w3
                  in case text_to_speech_convert sv bot_text of
                       Inl e \<Rightarrow> (w4, Inl e)
                     | Inr audio_generator \<Rightarrow>
                         let audio_bytes = concat audio_generator;
                             w5 = w4\<lparr>session := (session w4)\<lparr>current_audio := Some audio_bytes\<rparr>\<rparr>
                         in case input_key (session w5) of
                              None \<Rightarrow> (w5, Inl (missing_key ''input_key''))
                            | Some k \<Rightarrow>
                                (w5\<lparr>session := (session w5)\<lparr>input_key := Some (k + 1)\<rparr>\<rparr>,
                                 Inr ())))"

text \<open>Lines 667 to 706.\<close>

definition respond :: "services \<Rightarrow> string option \<Rightarrow> world \<Rightarrow> world \<times> control" where
  "respond sv user_text w =
     (case user_text of
        None \<Rightarrow> (w, Continue)
      | Some text \<Rightarrow>
          if text \<noteq> [] \<and> strip text \<noteq> [] then
            (case messages (session w) of
               None \<Rightarrow> (w, Crash (missing_key ''messages''))
             | Some log \<Rightarrow>
                 let log1 = log @ [\<lparr>role = User, content = text\<rparr>];
                     w1 = set_messages log1 w
                 in case respond_try sv log1 w1 of
                      (w2, Inr u) \<Rightarrow> (w2, Rerun)
                    | (w2, Inl e) \<Rightarrow> (st_error (''Error: '' @ exn_str e) w2, Continue))
          else (w, Continue))"

text \<open>Lines 636 to 706: one pipeline run; without a recording nothing happens.\<close>

definition pipeline :: "services \<Rightarrow> bytes option \<Rightarrow> world \<Rightarrow> world \<times> control" where
  "pipeline sv audio_value w =
     (case audio_value of
        None \<Rightarrow> (w, Continue)
      | Some audio \<Rightarrow>
          (case listen sv audio w of
             (w1, user_text) \<Rightarrow> respond sv user_text w1))"


section \<open>The rest of the script, and a session of runs\<close>






section \<open>Predicates of the properties, and example inputs\<close>










definition demo_world :: world where
  "demo_world =
     \<lparr>session = \<lparr>messages = Some [\<lparr>role = System, content = ''You are Dan.''\<rparr>],
                 input_key = Some 0, current_audio = None, scroll_after_message = None\<rparr>,
      files = Map.empty,
      trace = []\<rparr>"

definition demo_services :: services where
  "demo_services =
     \<lparr>tmp_name = ''/tmp/tmpk3v9.wav'',
      transcriptions_create = (\<lambda>audio. Inr (NoTextAttr ''What hobbies do you have?'')),
      completions_create = (\<lambda>log. Inr [''Mostly reading.'']),
      text_to_speech_convert = (\<lambda>text. Inr [''ID3'', ''abc''])\<rparr>"

definition provider_down :: "exn + 'a" where
  "provider_down = Inl (Exn ''APIConnectionError'' ''Connection error.'')"



section \<open>Properties of secret resolution and start-up\<close>

lemma get_secret_Inr:
  "get_secret secrets environ key dflt =
     Inr (case (case secrets of Store m \<Rightarrow> m key | Unavailable e \<Rightarrow> None) of
            Some v \<Rightarrow> v
          | None \<Rightarrow> (case environ key of Some s \<Rightarrow> PStr s | None \<Rightarrow> dflt))"
  by (auto simp: get_secret_def get_secret_try_def secrets_contains_def secrets_getitem_def
        os_getenv_def split: secrets_store.splits option.splits)

text \<open>
  Claim C10. \<open>get_secret\<close> never raises, and its value is decided in two tiers: the value
  the secrets store holds for the key when the store can be read and has the key;
  otherwise (the key is not in the store, or reading the store raised) the environment
  variable of that name; otherwise the default that was passed.
\<close>

theorem get_secret_two_tier:
  "get_secret secrets environ key dflt =
     Inr (case (case secrets of Store m \<Rightarrow> m key | Unavailable e \<Rightarrow> None) of
            Some v \<Rightarrow> v
          | None \<Rightarrow> (case environ key of Some s \<Rightarrow> PStr s | None \<Rightarrow> dflt))"
  by (rule get_secret_Inr)

theorem get_secret_two_tier_witness:
  "get_secret (Store [''GROQ_API_KEY'' \<mapsto> PStr ''from-secrets''])
       [''GROQ_API_KEY'' \<mapsto> ''from-env''] ''GROQ_API_KEY'' PNone = Inr (PStr ''from-secrets'')
   \<and> get_secret (Unavailable (Exn ''StreamlitSecretNotFoundError'' ''No secrets found.''))
       [''GROQ_API_KEY'' \<mapsto> ''from-env''] ''GROQ_API_KEY'' PNone = Inr (PStr ''from-env'')
   \<and> get_secret (Store Map.empty) Map.empty ''GROQ_API_KEY'' PNone = Inr PNone"
  using get_secret_two_tier [of "Store [''GROQ_API_KEY'' \<mapsto> PStr ''from-secrets'']"
          "[''GROQ_API_KEY'' \<mapsto> ''from-env'']" "''GROQ_API_KEY''" PNone]
        get_secret_two_tier [of "Unavailable (Exn ''StreamlitSecretNotFoundError'' ''No secrets found.'')"
          "[''GROQ_API_KEY'' \<mapsto> ''from-env'']" "''GROQ_API_KEY''" PNone]
        get_secret_two_tier [of "Store Map.empty" Map.empty "''GROQ_API_KEY''" PNone]
  by simp

lemma startup_eq:
  "startup secrets environ =
     (case read_keys secrets environ of
        Inl e \<Rightarrow> Inl e
      | Inr ks \<Rightarrow>
          (let gone = filter (\<lambda>key. case get_secret secrets environ key PNone of
                                     Inr v \<Rightarrow> \<not> truthy v | Inl e \<Rightarrow> False)
                        [''OPENAI_API_KEY'', ''ELEVENLABS_API_KEY'', ''GROQ_API_KEY'']
           in Inr (if gone = [] then Ready ks
                   else Halted (''Missing API keys: '' @ str_join '', '' gone))))"
  unfolding startup_def read_keys_def missing_def Let_def
  by (simp add: get_secret_Inr)

text \<open>
  Claim C6, as the code has it. Start-up reads four secrets and requires three of them:
  \<open>OPENAI_API_KEY\<close>, \<open>ELEVENLABS_API_KEY\<close> and \<open>GROQ_API_KEY\<close>. The four reads always
  succeed; when one of the three resolves to nothing or to an empty value the run halts
  and its message is \<open>Missing API keys:\<close> followed by exactly those of the three that are
  missing, in that order, separated by commas; when none is missing the run goes on.
  \<open>OPENAI_BASE_URL\<close> is read and never checked.
\<close>

theorem startup_three_required:
  "\<exists>ks. read_keys secrets environ = Inr ks \<and>
     startup secrets environ =
       (let gone = filter (\<lambda>key. case get_secret secrets environ key PNone of
                                   Inr v \<Rightarrow> \<not> truthy v | Inl e \<Rightarrow> False)
                      [''OPENAI_API_KEY'', ''ELEVENLABS_API_KEY'', ''GROQ_API_KEY'']
        in Inr (if gone = [] then Ready ks
                else Halted (''Missing API keys: '' @ str_join '', '' gone)))"
proof -
  obtain ks where ks: "read_keys secrets environ = Inr ks"
    unfolding read_keys_def by (simp add: get_secret_Inr)
  show ?thesis
    using ks startup_eq [of secrets environ] by simp
qed

theorem startup_three_required_witness:
  "startup (Unavailable (Exn ''StreamlitSecretNotFoundError'' ''No secrets found.''))
       [''OPENAI_API_KEY'' \<mapsto> ''sk-1'', ''GROQ_API_KEY'' \<mapsto> '''']
     = Inr (Halted ''Missing API keys: ELEVENLABS_API_KEY, GROQ_API_KEY'')"
  using startup_three_required [of "Unavailable (Exn ''StreamlitSecretNotFoundError'' ''No secrets found.'')"
          "[''OPENAI_API_KEY'' \<mapsto> ''sk-1'', ''GROQ_API_KEY'' \<mapsto> '''']"]
  by (auto simp: get_secret_def get_secret_try_def secrets_contains_def os_getenv_def)

text \<open>
  Claim C6 as the specification states it fails: with the three keys set and
  \<open>OPENAI_BASE_URL\<close> set nowhere, the fourth read gives \<open>None\<close> and start-up does not
  halt.
\<close>

theorem startup_base_url_not_required:
  "get_secret (Store Map.empty)
       [''OPENAI_API_KEY'' \<mapsto> ''sk-1'', ''ELEVENLABS_API_KEY'' \<mapsto> ''el-1'',
        ''GROQ_API_KEY'' \<mapsto> ''gq-1''] ''OPENAI_BASE_URL'' PNone = Inr PNone
   \<and> startup (Store Map.empty)
       [''OPENAI_API_KEY'' \<mapsto> ''sk-1'', ''ELEVENLABS_API_KEY'' \<mapsto> ''el-1'',
        ''GROQ_API_KEY'' \<mapsto> ''gq-1'']
     = Inr (Ready \<lparr>openai_api_key = PStr ''sk-1'', elevenlabs_api_key = PStr ''el-1'',
                   openai_base_url = PNone, groq_api_key = PStr ''gq-1''\<rparr>)"
  by (simp add: startup_def read_keys_def missing_def get_secret_def get_secret_try_def
        secrets_contains_def secrets_getitem_def os_getenv_def)

section \<open>Properties of text\<close>

lemma whitespace_shape_all:
  "list_all (\<lambda>c. case c of [] \<Rightarrow> False | b # r \<Rightarrow> \<not> is_cont b \<and> list_all is_cont r) whitespace"
  unfolding whitespace_def by (simp add: is_cont_def)

lemma whitespace_shape:
  assumes "c \<in> set whitespace"
  shows "\<exists>b r. c = b # r \<and> \<not> is_cont b \<and> list_all is_cont r"
proof -
  have "case c of [] \<Rightarrow> False | b # r \<Rightarrow> \<not> is_cont b \<and> list_all is_cont r"
    using whitespace_shape_all assms by (simp add: list_all_iff)
  then show ?thesis by (cases c) simp_all
qed

lemma takeWhile_all_append:
  assumes "list_all P r" and "rest = [] \<or> \<not> P (hd rest)"
  shows "takeWhile P (r @ rest) = r \<and> dropWhile P (r @ rest) = rest"
proof -
  have all: "\<forall>x\<in>set r. P x"
    using assms(1) by (simp add: list_all_iff)
  have t: "takeWhile P rest = []" and d: "dropWhile P rest = rest"
    using assms(2) by (cases rest; simp)+
  show ?thesis using all t d by (simp add: takeWhile_append2 dropWhile_append2)
qed

lemma codepoints_whitespace_append:
  assumes "c \<in> set whitespace" and "rest = [] \<or> \<not> is_cont (hd rest)"
  shows "codepoints (c @ rest) = c # codepoints rest"
proof -
  obtain b r where c: "c = b # r" and r: "list_all is_cont r"
    using whitespace_shape [OF assms(1)] by blast
  show ?thesis
    using takeWhile_all_append [OF r assms(2)] by (simp add: c)
qed

lemma concat_whitespace_head:
  assumes "set cs \<subseteq> set whitespace"
  shows "concat cs = [] \<or> \<not> is_cont (hd (concat cs))"
proof (cases cs)
  case Nil
  then show ?thesis by simp
next
  case (Cons c cs')
  then have "c \<in> set whitespace" using assms by simp
  then obtain b r where "c = b # r" and "\<not> is_cont b"
    using whitespace_shape by blast
  then show ?thesis using Cons by simp
qed

lemma codepoints_concat_whitespace:
  "set cs \<subseteq> set whitespace \<Longrightarrow> codepoints (concat cs) = cs"
proof (induction cs)
  case Nil
  show ?case by simp
next
  case (Cons c cs)
  then have c: "c \<in> set whitespace" and cs: "set cs \<subseteq> set whitespace" by simp_all
  show ?case
    using codepoints_whitespace_append [OF c concat_whitespace_head [OF cs]] Cons.IH [OF cs]
    by simp
qed

lemma strip_whitespace_only:
  assumes "set cs \<subseteq> set whitespace"
  shows "strip (concat cs) = []"
proof -
  have "\<forall>c\<in>set cs. isspace c"
    using assms by (auto simp: isspace_def)
  then have d: "dropWhile isspace cs = []"
    by (simp add: dropWhile_eq_Nil_conv)
  show ?thesis
    by (simp add: strip_def codepoints_concat_whitespace [OF assms] d)
qed

section \<open>Properties of the system prompt\<close>













section \<open>Properties of one pipeline run\<close>

lemma listen_raises:
  assumes "transcriptions_create sv audio = Inl e"
  shows "listen sv audio w =
           (w\<lparr>files := (files w)(tmp_name sv \<mapsto> audio),
              trace := trace w @ [TranscriptionCall audio,
                         ErrorNotice (''Audio processing failed: '' @ exn_str e)]\<rparr>,
            None)"
  using assms
  by (simp add: listen_def listen_try_def open_rb_def emit_def st_error_def Let_def)

lemma listen_returns:
  assumes "transcriptions_create sv audio = Inr t"
  shows "listen sv audio w =
           (w\<lparr>files := (files w)(tmp_name sv := None),
              trace := trace w @ [TranscriptionCall audio]\<rparr>,
            Some (case t of TextAttr s \<Rightarrow> s | NoTextAttr s \<Rightarrow> s))"
  using assms
  by (simp add: listen_def listen_try_def open_rb_def os_remove_def emit_def Let_def)

lemma respond_silent:
  assumes "user_text = None \<or> user_text = Some [] \<or> (\<exists>s. user_text = Some s \<and> strip s = [])"
  shows "respond sv user_text w = (w, Continue)"
  using assms by (auto simp: respond_def)

lemma respond_completion_raises:
  assumes "messages (session w) = Some log" and "s \<noteq> []" and "strip s \<noteq> []"
    and "completions_create sv (log @ [\<lparr>role = User, content = s\<rparr>]) = Inl e"
  shows "respond sv (Some s) w =
           (w\<lparr>session := (session w)\<lparr>messages := Some (log @ [\<lparr>role = User, content = s\<rparr>])\<rparr>,
              trace := trace w @ [CompletionCall (log @ [\<lparr>role = User, content = s\<rparr>]),
                         ErrorNotice (''Error: '' @ exn_str e)]\<rparr>,
            Continue)"
  using assms
  by (simp add: respond_def respond_try_def set_messages_def emit_def st_error_def Let_def)


lemma respond_synthesis_raises:
  assumes "messages (session w) = Some log" and "s \<noteq> []" and "strip s \<noteq> []"
    and "completions_create sv (log @ [\<lparr>role = User, content = s\<rparr>]) = Inr (bot_text # others)"
    and "text_to_speech_convert sv bot_text = Inl e"
  shows "respond sv (Some s) w =
           (w\<lparr>session := (session w)
                 \<lparr>messages := Some (log @ [\<lparr>role = User, content = s\<rparr>,
                                            \<lparr>role = Assistant, content = bot_text\<rparr>]),
                  scroll_after_message := Some True\<rparr>,
              trace := trace w @ [CompletionCall (log @ [\<lparr>role = User, content = s\<rparr>]),
                         SynthesisCall bot_text,
                         ErrorNotice (''Error: '' @ exn_str e)]\<rparr>,
            Continue)"
  using assms
  by (simp add: respond_def respond_try_def set_messages_def emit_def st_error_def Let_def)


text \<open>
  Claim C4. When the transcription call raises, the pipeline run leaves the session
  state, and with it the conversation log, exactly as it was; it shows one notice,
  \<open>Audio processing failed:\<close> with the text of the exception; it calls neither the
  completion nor the synthesis service; and the script goes on.
\<close>

theorem transcription_failure_aborts:
  assumes "transcriptions_create sv audio = Inl e"
    and "pipeline sv (Some audio) w = (w', c)"
  shows "session w' = session w
       \<and> trace w' = trace w @ [TranscriptionCall audio,
                                ErrorNotice (''Audio processing failed: '' @ exn_str e)]
       \<and> c = Continue"
  using assms by (auto simp: pipeline_def listen_raises respond_def)

theorem transcription_failure_aborts_witness:
  "transcriptions_create (demo_services\<lparr>transcriptions_create := (\<lambda>audio. provider_down)\<rparr>) ''RIFF''
     = Inl (Exn ''APIConnectionError'' ''Connection error.'')
   \<and> session (fst (pipeline (demo_services\<lparr>transcriptions_create := (\<lambda>audio. provider_down)\<rparr>)
                      (Some ''RIFF'') demo_world)) = session demo_world
   \<and> trace (fst (pipeline (demo_services\<lparr>transcriptions_create := (\<lambda>audio. provider_down)\<rparr>)
                    (Some ''RIFF'') demo_world))
       = [TranscriptionCall ''RIFF'', ErrorNotice ''Audio processing failed: Connection error.'']
   \<and> snd (pipeline (demo_services\<lparr>transcriptions_create := (\<lambda>audio. provider_down)\<rparr>)
             (Some ''RIFF'') demo_world) = Continue"
  using transcription_failure_aborts
          [of "demo_services\<lparr>transcriptions_create := (\<lambda>audio. provider_down)\<rparr>" "''RIFF''"
              "Exn ''APIConnectionError'' ''Connection error.''" demo_world
              "fst (pipeline (demo_services\<lparr>transcriptions_create := (\<lambda>audio. provider_down)\<rparr>)
                      (Some ''RIFF'') demo_world)"
              "snd (pipeline (demo_services\<lparr>transcriptions_create := (\<lambda>audio. provider_down)\<rparr>)
                      (Some ''RIFF'') demo_world)"]
  by (simp add: demo_services_def demo_world_def provider_down_def)

text \<open>
  Claim C5. When the transcribed text is empty or made of whitespace code points only,
  the pipeline run is silent: the session state, and with it the conversation log, is
  unchanged, the only event of the run is the transcription call (no completion call, no
  synthesis call, no notice), and the script goes on.
\<close>

theorem blank_transcription_is_silent:
  assumes "transcriptions_create sv audio = Inr t"
    and "t = TextAttr (concat cs) \<or> t = NoTextAttr (concat cs)"
    and "set cs \<subseteq> set whitespace"
    and "pipeline sv (Some audio) w = (w', c)"
  shows "session w' = session w
       \<and> trace w' = trace w @ [TranscriptionCall audio]
       \<and> c = Continue"
proof -
  have "strip (concat cs) = []"
    using assms(3) by (rule strip_whitespace_only)
  then have "respond sv (Some (concat cs)) w1 = (w1, Continue)" for w1
    by (simp add: respond_silent)
  then show ?thesis
    using assms(1,2,4) by (auto simp: pipeline_def listen_returns)
qed

theorem blank_transcription_is_silent_witness:
  "transcriptions_create (demo_services\<lparr>transcriptions_create := (\<lambda>audio. Inr (NoTextAttr ''  ''))\<rparr>) ''RIFF''
     = Inr (NoTextAttr (concat ['' '', '' '']))
   \<and> set ['' '', '' ''] \<subseteq> set whitespace
   \<and> session (fst (pipeline (demo_services\<lparr>transcriptions_create := (\<lambda>audio. Inr (NoTextAttr ''  ''))\<rparr>)
                      (Some ''RIFF'') demo_world)) = session demo_world
   \<and> trace (fst (pipeline (demo_services\<lparr>transcriptions_create := (\<lambda>audio. Inr (NoTextAttr ''  ''))\<rparr>)
                    (Some ''RIFF'') demo_world))
       = [TranscriptionCall ''RIFF'']
   \<and> snd (pipeline (demo_services\<lparr>transcriptions_create := (\<lambda>audio. Inr (NoTextAttr ''  ''))\<rparr>)
             (Some ''RIFF'') demo_world) = Continue"
  using blank_transcription_is_silent
          [of "demo_services\<lparr>transcriptions_create := (\<lambda>audio. Inr (NoTextAttr ''  ''))\<rparr>" "''RIFF''"
              "NoTextAttr ''  ''" "['' '', '' '']" demo_world
              "fst (pipeline (demo_services\<lparr>transcriptions_create := (\<lambda>audio. Inr (NoTextAttr ''  ''))\<rparr>)
                      (Some ''RIFF'') demo_world)"
              "snd (pipeline (demo_services\<lparr>transcriptions_create := (\<lambda>audio. Inr (NoTextAttr ''  ''))\<rparr>)
                      (Some ''RIFF'') demo_world)"]
  by (simp add: demo_services_def demo_world_def whitespace_def)

lemma user_turn_kept_when_completion_raises:
  assumes "messages (session w) = Some log"
    and "transcriptions_create sv audio = Inr t"
    and "t = TextAttr s \<or> t = NoTextAttr s"
    and "s \<noteq> []" and "strip s \<noteq> []"
    and "completions_create sv (log @ [\<lparr>role = User, content = s\<rparr>]) = Inl e"
    and "pipeline sv (Some audio) w = (w', c)"
  shows "messages (session w') = Some (log @ [\<lparr>role = User, content = s\<rparr>])
       \<and> trace w' = trace w @ [TranscriptionCall audio,
                                CompletionCall (log @ [\<lparr>role = User, content = s\<rparr>]),
                                ErrorNotice (''Error: '' @ exn_str e)]
       \<and> c = Continue"
proof -
  let ?w1 = "w\<lparr>files := (files w)(tmp_name sv := None), trace := trace w @ [TranscriptionCall audio]\<rparr>"
  have l: "listen sv audio w = (?w1, Some s)"
    using assms(2,3) by (auto simp: listen_returns)
  have m: "messages (session ?w1) = Some log"
    using assms(1) by simp
  show ?thesis
    using assms(7) respond_completion_raises [OF m assms(4,5,6)]
    by (auto simp: pipeline_def l)
qed

text \<open>
  Claim C2. When the completion call raises, the log after the pipeline run is the log
  before it with the user turn of the transcription appended and nothing else; the run
  shows one notice, \<open>Error:\<close> with the text of the exception; there is no synthesis
  call; and the script goes on.
\<close>

theorem completion_failure_keeps_user_turn:
  assumes "messages (session w) = Some log"
    and "transcriptions_create sv audio = Inr t"
    and "t = TextAttr s \<or> t = NoTextAttr s"
    and "s \<noteq> []" and "strip s \<noteq> []"
    and "completions_create sv (log @ [\<lparr>role = User, content = s\<rparr>]) = Inl e"
    and "pipeline sv (Some audio) w = (w', c)"
  shows "messages (session w') = Some (log @ [\<lparr>role = User, content = s\<rparr>])
       \<and> trace w' = trace w @ [TranscriptionCall audio,
                                CompletionCall (log @ [\<lparr>role = User, content = s\<rparr>]),
                                ErrorNotice (''Error: '' @ exn_str e)]
       \<and> c = Continue"
  using assms by (rule user_turn_kept_when_completion_raises)

theorem completion_failure_keeps_user_turn_witness:
  "messages (session demo_world) = Some [\<lparr>role = System, content = ''You are Dan.''\<rparr>]
   \<and> transcriptions_create (demo_services\<lparr>completions_create := (\<lambda>log. provider_down)\<rparr>) ''RIFF''
       = Inr (NoTextAttr ''What hobbies do you have?'')
   \<and> strip ''What hobbies do you have?'' \<noteq> []
   \<and> messages (session (fst (pipeline (demo_services\<lparr>completions_create := (\<lambda>log. provider_down)\<rparr>)
                                (Some ''RIFF'') demo_world)))
       = Some [\<lparr>role = System, content = ''You are Dan.''\<rparr>,
               \<lparr>role = User, content = ''What hobbies do you have?''\<rparr>]
   \<and> trace (fst (pipeline (demo_services\<lparr>completions_create := (\<lambda>log. provider_down)\<rparr>)
                    (Some ''RIFF'') demo_world))
       = [TranscriptionCall ''RIFF'',
          CompletionCall [\<lparr>role = System, content = ''You are Dan.''\<rparr>,
                          \<lparr>role = User, content = ''What hobbies do you have?''\<rparr>],
          ErrorNotice ''Error: Connection error.'']
   \<and> snd (pipeline (demo_services\<lparr>completions_create := (\<lambda>log. provider_down)\<rparr>)
             (Some ''RIFF'') demo_world) = Continue"
proof -
  have s: "strip ''What hobbies do you have?'' \<noteq> []"
    by (simp add: strip_def isspace_def whitespace_def is_cont_def)
  show ?thesis
    using s completion_failure_keeps_user_turn
          [of demo_world "[\<lparr>role = System, content = ''You are Dan.''\<rparr>]"
              "demo_services\<lparr>completions_create := (\<lambda>log. provider_down)\<rparr>" "''RIFF''"
              "NoTextAttr ''What hobbies do you have?''" "''What hobbies do you have?''"
              "Exn ''APIConnectionError'' ''Connection error.''"
              "fst (pipeline (demo_services\<lparr>completions_create := (\<lambda>log. provider_down)\<rparr>)
                      (Some ''RIFF'') demo_world)"
              "snd (pipeline (demo_services\<lparr>completions_create := (\<lambda>log. provider_down)\<rparr>)
                      (Some ''RIFF'') demo_world)"]
    by (simp add: demo_services_def demo_world_def provider_down_def)
qed

text \<open>
  Claim C3. When the completion returns and the synthesis call raises, the log after the
  pipeline run is the log before it with the user turn and the assistant turn appended;
  no audio is stored for playback; the exception is caught, shown as a notice, and the
  script goes on.
\<close>

theorem synthesis_failure_keeps_both_turns:
  assumes "messages (session w) = Some log"
    and "transcriptions_create sv audio = Inr t"
    and "t = TextAttr s \<or> t = NoTextAttr s"
    and "s \<noteq> []" and "strip s \<noteq> []"
    and "completions_create sv (log @ [\<lparr>role = User, content = s\<rparr>]) = Inr (bot_text # others)"
    and "text_to_speech_convert sv bot_text = Inl e"
    and "pipeline sv (Some audio) w = (w', c)"
  shows "messages (session w') = Some (log @ [\<lparr>role = User, content = s\<rparr>,
                                               \<lparr>role = Assistant, content = bot_text\<rparr>])
       \<and> current_audio (session w') = current_audio (session w)
       \<and> trace w' = trace w @ [TranscriptionCall audio,
                                CompletionCall (log @ [\<lparr>role = User, content = s\<rparr>]),
                                SynthesisCall bot_text,
                                ErrorNotice (''Error: '' @ exn_str e)]
       \<and> c = Continue"
proof -
  let ?w1 = "w\<lparr>files := (files w)(tmp_name sv := None), trace := trace w @ [TranscriptionCall audio]\<rparr>"
  have l: "listen sv audio w = (?w1, Some s)"
    using assms(2,3) by (auto simp: listen_returns)
  have m: "messages (session ?w1) = Some log"
    using assms(1) by simp
  show ?thesis
    using assms(8) respond_synthesis_raises [OF m assms(4,5,6,7)]
    by (auto simp: pipeline_def l)
qed

theorem synthesis_failure_keeps_both_turns_witness:
  "messages (session demo_world) = Some [\<lparr>role = System, content = ''You are Dan.''\<rparr>]
   \<and> strip ''What hobbies do you have?'' \<noteq> []
   \<and> messages (session (fst (pipeline (demo_services\<lparr>text_to_speech_convert := (\<lambda>text. provider_down)\<rparr>)
                                (Some ''RIFF'') demo_world)))
       = Some [\<lparr>role = System, content = ''You are Dan.''\<rparr>,
               \<lparr>role = User, content = ''What hobbies do you have?''\<rparr>,
               \<lparr>role = Assistant, content = ''Mostly reading.''\<rparr>]
   \<and> current_audio (session (fst (pipeline (demo_services\<lparr>text_to_speech_convert := (\<lambda>text. provider_down)\<rparr>)
                                (Some ''RIFF'') demo_world))) = None
   \<and> trace (fst (pipeline (demo_services\<lparr>text_to_speech_convert := (\<lambda>text. provider_down)\<rparr>)
                    (Some ''RIFF'') demo_world))
       = [TranscriptionCall ''RIFF'',
          CompletionCall [\<lparr>role = System, content = ''You are Dan.''\<rparr>,
                          \<lparr>role = User, content = ''What hobbies do you have?''\<rparr>],
          SynthesisCall ''Mostly reading.'',
          ErrorNotice ''Error: Connection error.'']
   \<and> snd (pipeline (demo_services\<lparr>text_to_speech_convert := (\<lambda>text. provider_down)\<rparr>)
             (Some ''RIFF'') demo_world) = Continue"
proof -
  have s: "strip ''What hobbies do you have?'' \<noteq> []"
    by (simp add: strip_def isspace_def whitespace_def is_cont_def)
  show ?thesis
    using s synthesis_failure_keeps_both_turns
          [of demo_world "[\<lparr>role = System, content = ''You are Dan.''\<rparr>]"
              "demo_services\<lparr>text_to_speech_convert := (\<lambda>text. provider_down)\<rparr>" "''RIFF''"
              "NoTextAttr ''What hobbies do you have?''" "''What hobbies do you have?''"
              "''Mostly reading.''" "[]"
              "Exn ''APIConnectionError'' ''Connection error.''"
              "fst (pipeline (demo_services\<lparr>text_to_speech_convert := (\<lambda>text. provider_down)\<rparr>)
                      (Some ''RIFF'') demo_world)"
              "snd (pipeline (demo_services\<lparr>text_to_speech_convert := (\<lambda>text. provider_down)\<rparr>)
                      (Some ''RIFF'') demo_world)"]
    by (simp add: demo_services_def demo_world_def provider_down_def)
qed

text \<open>
  Claim C7 does not hold of the code. The temporary file is created with
  \<open>delete=False\<close> and removed by \<open>os.remove\<close> on line 661, inside the \<open>try\<close> and after
  the transcription call; the handler of line 663 does not remove it. With a
  transcription service that cannot be reached the file is still there after the run,
  while the same run with a service that answers removes it.
\<close>

theorem temp_file_left_after_failed_transcription:
  "files demo_world ''/tmp/tmpk3v9.wav'' = None
   \<and> files (fst (pipeline (demo_services\<lparr>transcriptions_create := (\<lambda>audio. provider_down)\<rparr>)
                    (Some ''RIFF'') demo_world)) ''/tmp/tmpk3v9.wav'' = Some ''RIFF''
   \<and> files (fst (pipeline demo_services (Some ''RIFF'') demo_world)) ''/tmp/tmpk3v9.wav'' = None"
proof -
  have a: "listen (demo_services\<lparr>transcriptions_create := (\<lambda>audio. provider_down)\<rparr>) ''RIFF'' demo_world
         = (demo_world\<lparr>files := (files demo_world)(''/tmp/tmpk3v9.wav'' \<mapsto> ''RIFF''),
              trace := trace demo_world @ [TranscriptionCall ''RIFF'',
                         ErrorNotice (''Audio processing failed: '' @ ''Connection error.'')]\<rparr>, None)"
    using listen_raises [of "demo_services\<lparr>transcriptions_create := (\<lambda>audio. provider_down)\<rparr>"
            "''RIFF''" "Exn ''APIConnectionError'' ''Connection error.''" demo_world]
    by (simp add: demo_services_def provider_down_def)
  have s: "strip ''What hobbies do you have?'' \<noteq> []"
    by (simp add: strip_def isspace_def whitespace_def is_cont_def)
  have b: "files (fst (pipeline demo_services (Some ''RIFF'') demo_world)) ''/tmp/tmpk3v9.wav'' = None"
    using s
    by (simp add: pipeline_def listen_def listen_try_def open_rb_def os_remove_def emit_def
          respond_def respond_try_def set_messages_def st_error_def Let_def
          demo_services_def demo_world_def)
  show ?thesis
    using b by (simp add: pipeline_def a respond_def) (simp add: demo_world_def)
qed

section \<open>Properties of a session\<close>
























lemma pairs_Suc:
  "[User, Assistant] @ concat (replicate n [User, Assistant])
     = concat (replicate (Suc n) [User, Assistant])"
  by simp













end
